theory Spec2Isabelle
  imports Main
begin

section \<open>The room form dialog (src/components/admin/room-form-dialog.tsx)\<close>

text \<open>
  The component is a React function component. Its observable behaviour is modelled in
  layers, each following the source:
  \<^item> the validation schema \<open>roomFormSchema\<close> (lines 18-21), a pure function of the
    form values;
  \<^item> the form state controller: the default values (lines 39-42) and the effect that
    resets the form whenever the dialog is (re)opened (lines 45-53);
  \<^item> the submit handler \<open>onSubmit\<close> (lines 55-85), whose calls to its collaborators
    (\<open>toast\<close>, \<open>setIsSubmitting\<close>, \<open>updateRoom\<close>, \<open>addRoom\<close>, \<open>onClose\<close>,
    \<open>console.error\<close>) are recorded, in program order, as a list of effects;
  \<^item> the controls of the dialog (lines 87-146) and the sessions they make up: renders,
    edits, a click on Cancel, a dismissal, a submission and the settling of its awaited
    call, in any order.

  A JavaScript string is modelled as a \<open>string\<close>, one element per code unit, so that
  \<open>length\<close> is the \<open>length\<close> property that the schema's \<open>min\<close> inspects.
\<close>

subsection \<open>Data model\<close>

text \<open>
  Modelled from the spec: the types \<open>Room\<close> and \<open>Location\<close> are declared in
  \<open>@/lib/types\<close>, which is not among the sources. The spec gives
  \<open>Room = { id, name, locationId }\<close> and \<open>Location = { id, name }\<close>. The record is
  extensible: whatever further fields a Room carries live in the extension slot
  \<open>Room.more\<close>, so that the object spread \<open>{ ...room, name, locationId }\<close> of line 63
  can be read as a record update.
\<close>

record Room =
  Room_id :: string
  Room_name :: string
  Room_locationId :: string

record Location =
  Location_id :: string
  Location_name :: string

text \<open>\<open>RoomFormValues\<close> (line 23): the type inferred from the schema.\<close>

record RoomFormValues =
  name :: string
  locationId :: string

text \<open>
  \<open>RoomFormDialogProps\<close> (lines 25-31). The optional props \<open>room\<close> and
  \<open>defaultLocationId\<close> are \<open>None\<close> when not supplied (\<open>undefined\<close>). The callback
  \<open>onClose\<close> is kept with the other collaborators below.
\<close>

record 'x Props =
  isOpen :: bool
  room :: "'x Room_scheme option"
  locations :: "Location list"
  defaultLocationId :: "string option"

subsection \<open>Validation schema (lines 18-21)\<close>

text \<open>
  An issue is a field path with its message. \<open>z_string_min n msg\<close> is the check
  \<open>z.string().min(n, msg)\<close> on a value that is already a string: it reports \<open>msg\<close>
  when the string has fewer than \<open>n\<close> code units. \<open>z.object\<close> collects the issues of
  its fields in declaration order and succeeds with the parsed object when there are none.
\<close>

type_synonym issue = "string \<times> string"

definition z_string_min :: "nat \<Rightarrow> string \<Rightarrow> string \<Rightarrow> string \<Rightarrow> issue list" where
  "z_string_min n msg path v = (if length v < n then [(path, msg)] else [])"

definition name_too_short :: string where
  "name_too_short = ''Room name must be at least 3 characters long.''"

definition location_required :: string where
  "location_required = ''Location is required.''"

definition roomFormSchema :: "RoomFormValues \<Rightarrow> issue list + RoomFormValues" where
  "roomFormSchema v =
     (let issues = z_string_min 3 name_too_short ''name'' (name v)
                 @ z_string_min 1 location_required ''locationId'' (locationId v)
      in if issues = [] then Inr \<lparr>name = name v, locationId = locationId v\<rparr>
         else Inl issues)"

subsection \<open>Form state controller (lines 35-53)\<close>

text \<open>
  JavaScript's \<open>a || b\<close> yields \<open>a\<close> when \<open>a\<close> is truthy and \<open>b\<close> otherwise. For a value
  that is a string or \<open>undefined\<close>, truthy means: defined and not the empty string.
  \<open>js_or\<close> is \<open>||\<close> between two such values, \<open>js_or_str\<close> is \<open>||\<close> whose right operand
  is always a string.
\<close>

definition truthy :: "string option \<Rightarrow> bool" where
  "truthy a = (case a of None \<Rightarrow> False | Some s \<Rightarrow> s \<noteq> [])"

definition js_or :: "string option \<Rightarrow> string option \<Rightarrow> string option" where
  "js_or a b = (if truthy a then a else b)"

definition js_or_str :: "string option \<Rightarrow> string \<Rightarrow> string" where
  "js_or_str a s = (case a of None \<Rightarrow> s | Some x \<Rightarrow> if x \<noteq> [] then x else s)"

text \<open>
  The object built at lines 39-42 and again at lines 47-50; \<open>room?.name\<close> is
  \<open>map_option Room_name (room p)\<close>.
\<close>

definition defaultValues :: "'x Props \<Rightarrow> RoomFormValues" where
  "defaultValues p =
     \<lparr>name = js_or_str (map_option Room_name (room p)) [],
      locationId =
        js_or_str (js_or (map_option Room_locationId (room p)) (defaultLocationId p))
          (if length (locations p) > 0 then Location_id (locations p ! 0) else [])\<rparr>"

text \<open>The component's own state: the form values and the \<open>isSubmitting\<close> flag.\<close>

record CompState =
  form :: RoomFormValues
  isSubmitting :: bool

text \<open>
  First render: \<open>useState(false)\<close> and \<open>useForm\<close> with the default values.
\<close>

definition mount :: "'x Props \<Rightarrow> CompState" where
  "mount p = \<lparr>form = defaultValues p, isSubmitting = False\<rparr>"

text \<open>The body of the effect (lines 46-52).\<close>

definition useEffect_body :: "'x Props \<Rightarrow> CompState \<Rightarrow> CompState" where
  "useEffect_body p s =
     (if isOpen p then \<lparr>form = defaultValues p, isSubmitting = False\<rparr> else s)"

text \<open>
  React runs the effect after a render in which one of its dependencies
  \<open>[isOpen, room, locations, defaultLocationId, form]\<close> has changed. \<open>form\<close> is stable.
  \<open>room\<close> and \<open>locations\<close> are compared by identity, which the model cannot see:
  \<open>fresh\<close> says that the parent passed a new object for one of them. Props that differ
  in content always differ in identity.
\<close>

definition deps_changed :: "'x Props \<Rightarrow> 'x Props \<Rightarrow> bool \<Rightarrow> bool" where
  "deps_changed old new fresh =
     (fresh \<or> isOpen old \<noteq> isOpen new \<or> room old \<noteq> room new
      \<or> locations old \<noteq> locations new \<or> defaultLocationId old \<noteq> defaultLocationId new)"

definition rerender :: "'x Props \<Rightarrow> 'x Props \<Rightarrow> bool \<Rightarrow> CompState \<Rightarrow> CompState" where
  "rerender old new fresh s = (if deps_changed old new fresh then useEffect_body new s else s)"

text \<open>
  The initial values as the specification words them: the room's name when a room is
  supplied, else empty; the room's location id when present, else the supplied default,
  else the first location's id, else empty. A location id counts as present or supplied
  when it is a non-empty string.
\<close>

fun spec_name :: "string option \<Rightarrow> string" where
  "spec_name (Some n) = n"
| "spec_name None = []"

fun spec_locationId :: "string option \<Rightarrow> string option \<Rightarrow> string list \<Rightarrow> string" where
  "spec_locationId (Some (c # cs)) dflt ids = c # cs"
| "spec_locationId rl (Some (c # cs)) ids = c # cs"
| "spec_locationId rl dflt (i # ids) = i"
| "spec_locationId rl dflt [] = []"

subsection \<open>Collaborators and effects\<close>

text \<open>
  A thrown JavaScript value. An awaited call either yields a value (\<open>Inr\<close>) or throws,
  which for an awaited promise includes rejection (\<open>Inl\<close>).
\<close>

datatype exn = Exn string

text \<open>
  The argument of \<open>toast\<close>; \<open>variant\<close> is \<open>None\<close> where the source gives none (the
  default, non-error appearance) and \<open>Some ''destructive''\<close> for an error toast.
\<close>

record toast_arg =
  title :: string
  description :: string
  variant :: "string option"

text \<open>
  Modelled from the spec: the result types of \<open>updateRoom\<close> and \<open>addRoom\<close>, which
  are imported from \<open>@/lib/data\<close>, not among the sources. The spec gives
  \<open>updateRoom(room) -> boolean\<close> and \<open>createRoom(name, locationId) -> Room | null\<close>
  (\<open>None\<close> is \<open>null\<close>). What they return, or throw, is a parameter of the model, as is
  the behaviour of \<open>onClose\<close>: a prop, a function supplied by the parent, which like
  any JavaScript function either returns (\<open>None\<close>) or throws (\<open>Some e\<close>). \<open>toast\<close>,
  \<open>setIsSubmitting\<close> and \<open>console.error\<close> are fixed sinks that return normally.
\<close>

record 'x Env =
  updateRoom :: "'x Room_scheme \<Rightarrow> exn + bool"
  addRoom :: "string \<Rightarrow> string \<Rightarrow> exn + 'x Room_scheme option"
  onClose :: "bool \<Rightarrow> exn option"

text \<open>One entry per call the component makes to a collaborator, with its arguments.\<close>

datatype 'x effect =
    SetIsSubmitting bool
  | CallUpdateRoom "'x Room_scheme"
  | CallAddRoom string string
  | Toast toast_arg
  | OnClose bool
  | ConsoleError string exn

text \<open>
  A computation is the list of effects it performed, in order, and the exception it
  ended with, if any. \<open>then_do\<close> is sequencing: the second statement runs only if the
  first completed normally.
\<close>

type_synonym 'x comp = "'x effect list \<times> exn option"

definition emit :: "'x effect \<Rightarrow> 'x comp" where
  "emit e = ([e], None)"

fun then_do :: "'x comp \<Rightarrow> 'x comp \<Rightarrow> 'x comp" where
  "then_do (es, Some x) c = (es, Some x)"
| "then_do (es, None) (fs, r) = (es @ fs, r)"

text \<open>
  \<open>try { body } catch (error) { handler error } finally { fin }\<close>: the handler runs
  when the body threw; \<open>fin\<close> runs in every case; the statement throws what \<open>fin\<close>
  throws, else what the handler threw, else completes normally.
\<close>

definition try_catch_finally :: "'x comp \<Rightarrow> (exn \<Rightarrow> 'x comp) \<Rightarrow> 'x comp \<Rightarrow> 'x comp" where
  "try_catch_finally body handler fin =
     (let caught = (case body of
                      (es, None) \<Rightarrow> (es, None)
                    | (es, Some x) \<Rightarrow> then_do (es, None) (handler x))
      in case fin of
           (fs, Some y) \<Rightarrow> (fst caught @ fs, Some y)
         | (fs, None) \<Rightarrow> (fst caught @ fs, snd caught))"

subsection \<open>The submit handler (lines 55-85)\<close>

definition toast_no_locations :: toast_arg where
  "toast_no_locations =
     \<lparr>title = ''Error'',
      description = ''No locations available. Please add a location first.'',
      variant = Some ''destructive''\<rparr>"

definition toast_room_updated :: toast_arg where
  "toast_room_updated =
     \<lparr>title = ''Room Updated'',
      description = ''The room has been successfully updated.'',
      variant = None\<rparr>"

definition toast_update_failed :: toast_arg where
  "toast_update_failed =
     \<lparr>title = ''Error'',
      description = ''Failed to update room. Please try again.'',
      variant = Some ''destructive''\<rparr>"

definition toast_room_added :: toast_arg where
  "toast_room_added =
     \<lparr>title = ''Room Added'',
      description = ''The new room has been successfully added.'',
      variant = None\<rparr>"

definition toast_add_failed :: toast_arg where
  "toast_add_failed =
     \<lparr>title = ''Error'',
      description = ''Failed to add room. Please try again.'',
      variant = Some ''destructive''\<rparr>"

definition toast_unexpected :: toast_arg where
  "toast_unexpected =
     \<lparr>title = ''Error'',
      description = ''An unexpected error occurred while saving the room.'',
      variant = Some ''destructive''\<rparr>"

text \<open>The record passed to \<open>updateRoom\<close> at line 63.\<close>

definition merged :: "'x Room_scheme \<Rightarrow> RoomFormValues \<Rightarrow> 'x Room_scheme" where
  "merged r data = r\<lparr>Room_name := name data, Room_locationId := locationId data\<rparr>"

text \<open>An awaited call: the call is recorded, then its outcome decides how to go on.\<close>

definition await_call :: "'x effect \<Rightarrow> exn + 'r \<Rightarrow> ('r \<Rightarrow> 'x comp) \<Rightarrow> 'x comp" where
  "await_call call outcome k =
     (case outcome of
        Inl e \<Rightarrow> ([call], Some e)
      | Inr v \<Rightarrow> then_do (emit call) (k v))"

definition call_onClose :: "'x Env \<Rightarrow> bool \<Rightarrow> 'x comp" where
  "call_onClose env b = ([OnClose b], onClose env b)"

text \<open>The body of the \<open>try\<close> block (lines 62-78).\<close>

definition try_body :: "'x Props \<Rightarrow> 'x Env \<Rightarrow> RoomFormValues \<Rightarrow> 'x comp" where
  "try_body p env data =
     (case room p of
        Some r \<Rightarrow>
          await_call (CallUpdateRoom (merged r data)) (updateRoom env (merged r data))
            (\<lambda>success.
               if success
               then then_do (emit (Toast toast_room_updated)) (call_onClose env True)
               else emit (Toast toast_update_failed))
      | None \<Rightarrow>
          await_call (CallAddRoom (name data) (locationId data))
            (addRoom env (name data) (locationId data))
            (\<lambda>newRoom.
               if newRoom \<noteq> None
               then then_do (emit (Toast toast_room_added)) (call_onClose env True)
               else emit (Toast toast_add_failed)))"

text \<open>The \<open>catch\<close> block (lines 79-81).\<close>

definition catch_block :: "exn \<Rightarrow> 'x comp" where
  "catch_block error =
     then_do (emit (Toast toast_unexpected))
             (emit (ConsoleError ''Failed to save room:'' error))"

definition onSubmit :: "'x Props \<Rightarrow> 'x Env \<Rightarrow> RoomFormValues \<Rightarrow> 'x comp" where
  "onSubmit p env data =
     (if length (locations p) = 0
      then emit (Toast toast_no_locations)
      else then_do (emit (SetIsSubmitting True))
             (try_catch_finally (try_body p env data) catch_block
                (emit (SetIsSubmitting False))))"

text \<open>
  \<open>form.handleSubmit(onSubmit)\<close> (line 96) with the schema as resolver: the form values
  are parsed first; the handler is called with the parsed values only when there is no
  issue, otherwise the issues become the fields' error messages and nothing else happens.
\<close>

datatype 'x submit_result = Blocked "issue list" | Submitted RoomFormValues "'x comp"

definition handleSubmit :: "'x Props \<Rightarrow> 'x Env \<Rightarrow> RoomFormValues \<Rightarrow> 'x submit_result" where
  "handleSubmit p env v =
     (case roomFormSchema v of
        Inl issues \<Rightarrow> Blocked issues
      | Inr data \<Rightarrow> Submitted data (onSubmit p env data))"

subsection \<open>Reading a trace of effects\<close>

text \<open>The effects of a submit attempt: none when validation blocked it.\<close>

fun attempt_effects :: "'x submit_result \<Rightarrow> 'x effect list" where
  "attempt_effects (Blocked issues) = []"
| "attempt_effects (Submitted data c) = fst c"

fun update_calls :: "'x effect list \<Rightarrow> 'x Room_scheme list" where
  "update_calls [] = []"
| "update_calls (CallUpdateRoom r # es) = r # update_calls es"
| "update_calls (e # es) = update_calls es"

fun add_calls :: "'x effect list \<Rightarrow> (string \<times> string) list" where
  "add_calls [] = []"
| "add_calls (CallAddRoom n l # es) = (n, l) # add_calls es"
| "add_calls (e # es) = add_calls es"

fun toasts :: "'x effect list \<Rightarrow> toast_arg list" where
  "toasts [] = []"
| "toasts (Toast t # es) = t # toasts es"
| "toasts (e # es) = toasts es"

fun closes :: "'x effect list \<Rightarrow> bool list" where
  "closes [] = []"
| "closes (OnClose b # es) = b # closes es"
| "closes (e # es) = closes es"

fun flag_writes :: "'x effect list \<Rightarrow> bool list" where
  "flag_writes [] = []"
| "flag_writes (SetIsSubmitting b # es) = b # flag_writes es"
| "flag_writes (e # es) = flag_writes es"

fun logged :: "'x effect list \<Rightarrow> (string \<times> exn) list" where
  "logged [] = []"
| "logged (ConsoleError m e # es) = (m, e) # logged es"
| "logged (e # es) = logged es"

text \<open>The value of the \<open>isSubmitting\<close> flag after a trace, from its value before.\<close>

fun flag_after :: "bool \<Rightarrow> 'x effect list \<Rightarrow> bool" where
  "flag_after b [] = b"
| "flag_after b (SetIsSubmitting c # es) = flag_after c es"
| "flag_after b (e # es) = flag_after b es"


subsection \<open>The controls of the dialog (lines 87-146)\<close>

text \<open>
  Nothing is rendered while the dialog is not open (line 87), so no control can be used
  then. The name input writes the typed text to the form. The location picker offers
  one item per supplied location, whose value is that location's id, and is disabled
  when there is no location; \<open>location_onValueChange p i\<close> is the choice of item \<open>i\<close>.
\<close>

definition name_onChange :: "string \<Rightarrow> CompState \<Rightarrow> CompState" where
  "name_onChange n s = s\<lparr>form := (form s)\<lparr>name := n\<rparr>\<rparr>"

definition location_onValueChange :: "'x Props \<Rightarrow> nat \<Rightarrow> CompState \<Rightarrow> CompState" where
  "location_onValueChange p i s =
     (if length (locations p) = 0 \<or> \<not> i < length (locations p) then s
      else s\<lparr>form := (form s)\<lparr>locationId := Location_id (locations p ! i)\<rparr>\<rparr>)"



text \<open>
  What can happen to the form between mounting and unmounting: the parent renders the
  component again with props of its choice, the user types a name, the user picks a
  location. The submit handler performs only the effects listed in \<open>effect\<close>, none of
  which writes a form value.
\<close>

datatype 'x ui_event = Rerender "'x Props" bool | TypeName string | PickLocation nat

fun ui_step :: "'x Props \<times> CompState \<Rightarrow> 'x ui_event \<Rightarrow> 'x Props \<times> CompState" where
  "ui_step (p, s) (Rerender p' fresh) = (p', rerender p p' fresh s)"
| "ui_step (p, s) (TypeName n) = (p, if isOpen p then name_onChange n s else s)"
| "ui_step (p, s) (PickLocation i) = (p, if isOpen p then location_onValueChange p i s else s)"

definition ui_run :: "'x Props \<Rightarrow> 'x ui_event list \<Rightarrow> 'x Props \<times> CompState" where
  "ui_run p evs = foldl ui_step (p, mount p) evs"

text \<open>
  The location id that seeds the form ahead of the first location of the list: the
  room's, or else the default (\<open>room?.locationId || defaultLocationId\<close>). \<open>seed_ok p\<close>
  says that this id, when there is a non-empty one, is the id of a supplied location.
\<close>

definition location_ids :: "'x Props \<Rightarrow> string list" where
  "location_ids p = map Location_id (locations p)"

definition seed_ok :: "'x Props \<Rightarrow> bool" where
  "seed_ok p =
     (case js_or (map_option Room_locationId (room p)) (defaultLocationId p) of
        None \<Rightarrow> True
      | Some l \<Rightarrow> l = [] \<or> l \<in> set (location_ids p))"

fun event_ok :: "'x ui_event \<Rightarrow> bool" where
  "event_ok (Rerender p' fresh) = seed_ok p'"
| "event_ok e = True"

text \<open>
  The state of an open dialog with at least one location holds the id of a supplied
  location.
\<close>

definition form_location_known :: "'x Props \<times> CompState \<Rightarrow> bool" where
  "form_location_known st =
     (isOpen (fst st) \<and> locations (fst st) \<noteq> [] \<longrightarrow>
        locationId (form (snd st)) \<in> set (location_ids (fst st)))"

text \<open>Whether the persistence call of a submission reports success.\<close>

definition persist_ok :: "'x Props \<Rightarrow> 'x Env \<Rightarrow> RoomFormValues \<Rightarrow> bool" where
  "persist_ok p env data =
     (length (locations p) \<noteq> 0 \<and>
      (case room p of
         Some r \<Rightarrow> updateRoom env (merged r data) = Inr True
       | None \<Rightarrow> (case addRoom env (name data) (locationId data) of
                    Inr (Some r) \<Rightarrow> True | Inr None \<Rightarrow> False | Inl e \<Rightarrow> False)))"

subsection \<open>An open session of the dialog\<close>

text \<open>
  \<open>onSubmit\<close> is an \<open>async\<close> function: it runs up to the \<open>await\<close> of line 63 or 71 when
  the form is submitted, and the rest runs when the awaited call has settled. Between
  the two, other events reach the component. \<open>submit_start\<close> is the part before the
  \<open>await\<close>, with the call that is now awaited; \<open>submit_resume\<close> is the part after it,
  given how the call settled: it threw, or it returned a truthy or a falsy value.
\<close>

datatype awaited = AwaitUpdate | AwaitAdd

definition submit_start :: "'x Props \<Rightarrow> RoomFormValues \<Rightarrow> 'x effect list \<times> awaited option" where
  "submit_start p data =
     (if length (locations p) = 0
      then ([Toast toast_no_locations], None)
      else case room p of
             Some r \<Rightarrow>
               ([SetIsSubmitting True, CallUpdateRoom (merged r data)], Some AwaitUpdate)
           | None \<Rightarrow>
               ([SetIsSubmitting True, CallAddRoom (name data) (locationId data)],
                Some AwaitAdd))"

definition after_await :: "'x Env \<Rightarrow> awaited \<Rightarrow> bool \<Rightarrow> 'x comp" where
  "after_await env w ok =
     (case w of
        AwaitUpdate \<Rightarrow>
          if ok then then_do (emit (Toast toast_room_updated)) (call_onClose env True)
          else emit (Toast toast_update_failed)
      | AwaitAdd \<Rightarrow>
          if ok then then_do (emit (Toast toast_room_added)) (call_onClose env True)
          else emit (Toast toast_add_failed))"

definition submit_resume :: "'x Env \<Rightarrow> awaited \<Rightarrow> exn + bool \<Rightarrow> 'x comp" where
  "submit_resume env w outcome =
     try_catch_finally
       (case outcome of Inl e \<Rightarrow> ([], Some e) | Inr ok \<Rightarrow> after_await env w ok)
       catch_block
       (emit (SetIsSubmitting False))"







subsection \<open>Example inputs\<close>

text \<open>The scenarios of the specification, used to exercise the theorems below.\<close>

definition lobby :: Location where
  "lobby = \<lparr>Location_id = ''L1'', Location_name = ''Lobby''\<rparr>"

definition old_room :: Room where
  "old_room = \<lparr>Room_id = ''R1'', Room_name = ''Old'', Room_locationId = ''L1''\<rparr>"

definition edit_props :: "unit Props" where
  "edit_props = \<lparr>isOpen = True, room = Some old_room, locations = [lobby],
                 defaultLocationId = None\<rparr>"

definition create_props :: "unit Props" where
  "create_props = \<lparr>isOpen = True, room = None, locations = [lobby],
                   defaultLocationId = Some ''L1''\<rparr>"

definition closed_props :: "unit Props" where
  "closed_props = \<lparr>isOpen = False, room = None, locations = [lobby],
                   defaultLocationId = None\<rparr>"

definition no_location_props :: "unit Props" where
  "no_location_props = \<lparr>isOpen = True, room = Some old_room, locations = [],
                        defaultLocationId = None\<rparr>"

definition bare_props :: "unit Props" where
  "bare_props = \<lparr>isOpen = True, room = None, locations = [],
                 defaultLocationId = None\<rparr>"

definition stray_room :: Room where
  "stray_room = \<lparr>Room_id = ''R2'', Room_name = ''Attic'', Room_locationId = ''L9''\<rparr>"

definition stray_props :: "unit Props" where
  "stray_props = \<lparr>isOpen = True, room = Some stray_room, locations = [lobby],
                  defaultLocationId = None\<rparr>"

definition new_values :: RoomFormValues where
  "new_values = \<lparr>name = ''New'', locationId = ''L1''\<rparr>"

definition suite_values :: RoomFormValues where
  "suite_values = \<lparr>name = ''Sunrise Suite'', locationId = ''L1''\<rparr>"

text \<open>A Room type with a further field, and a room of that type.\<close>

record BookableRoom = Room +
  capacity :: nat

definition hall :: BookableRoom where
  "hall = \<lparr>Room_id = ''R3'', Room_name = ''Hall'', Room_locationId = ''L1'', capacity = 40\<rparr>"

definition hall_props :: "\<lparr>capacity :: nat\<rparr> Props" where
  "hall_props = \<lparr>isOpen = True, room = Some hall, locations = [lobby],
                 defaultLocationId = None\<rparr>"

definition hall_env :: "\<lparr>capacity :: nat\<rparr> Env" where
  "hall_env = \<lparr>updateRoom = (\<lambda>r. Inr True), addRoom = (\<lambda>n l. Inr None),
               onClose = (\<lambda>b. None)\<rparr>"

definition suite_room :: Room where
  "suite_room = \<lparr>Room_id = ''R7'', Room_name = ''Sunrise Suite'', Room_locationId = ''L1''\<rparr>"

text \<open>Persistence succeeds and the parent's \<open>onClose\<close> returns.\<close>

definition env_success :: "unit Env" where
  "env_success = \<lparr>updateRoom = (\<lambda>r. Inr True),
                  addRoom = (\<lambda>n l. Inr (Some suite_room)),
                  onClose = (\<lambda>b. None)\<rparr>"

text \<open>Persistence reports failure.\<close>

definition env_failure :: "unit Env" where
  "env_failure = \<lparr>updateRoom = (\<lambda>r. Inr False),
                  addRoom = (\<lambda>n l. Inr None),
                  onClose = (\<lambda>b. None)\<rparr>"

text \<open>Persistence throws.\<close>

definition env_throws :: "unit Env" where
  "env_throws = \<lparr>updateRoom = (\<lambda>r. Inl (Exn ''offline'')),
                 addRoom = (\<lambda>n l. Inl (Exn ''offline'')),
                 onClose = (\<lambda>b. None)\<rparr>"

text \<open>Persistence succeeds and the parent's \<open>onClose\<close> throws.\<close>

definition env_onClose_throws :: "unit Env" where
  "env_onClose_throws = \<lparr>updateRoom = (\<lambda>r. Inr True),
                         addRoom = (\<lambda>n l. Inr (Some suite_room)),
                         onClose = (\<lambda>b. Some (Exn ''refresh failed''))\<rparr>"

section \<open>Properties\<close>

subsection \<open>Auxiliary facts\<close>

text \<open>A string or \<open>undefined\<close> is undefined, the empty string, or a non-empty string.\<close>

lemma str_opt_cases [case_names Undefined Empty NonEmpty]:
  obtains "a = None" | "a = Some []" | c cs where "a = Some (c # cs)"
  by (metis list.exhaust option.exhaust)

lemma js_or_str_spec_name: "js_or_str a [] = spec_name a"
  by (cases a) (simp_all add: js_or_str_def)

lemma js_or_chain_spec:
  "js_or_str (js_or a b) (if length xs > 0 then Location_id (xs ! 0) else [])
   = spec_locationId a b (map Location_id xs)"
  by (cases a rule: str_opt_cases; cases b rule: str_opt_cases; cases xs)
     (simp_all add: js_or_str_def js_or_def truthy_def)

lemma defaultValues_spec:
  "defaultValues p =
     \<lparr>name = spec_name (map_option Room_name (room p)),
      locationId = spec_locationId (map_option Room_locationId (room p))
                     (defaultLocationId p) (map Location_id (locations p))\<rparr>"
  unfolding defaultValues_def by (simp only: js_or_str_spec_name js_or_chain_spec)

lemma parsed_values: "\<lparr>name = name v, locationId = locationId v\<rparr> = (v :: RoomFormValues)"
  by simp

text \<open>
  The trace of the handler, path by path: the awaited call returned or threw, in edit
  mode and in create mode, and the rejection when there is no location.
\<close>

lemmas handler_defs =
  onSubmit_def try_body_def try_catch_finally_def catch_block_def await_call_def
  call_onClose_def emit_def merged_def

lemma onSubmit_edit_returned:
  assumes "room p = Some r" "locations p \<noteq> []"
    and "updateRoom env (merged r data) = Inr ok"
  shows "fst (onSubmit p env data) =
           SetIsSubmitting True # CallUpdateRoom (merged r data) #
           (if ok
            then Toast toast_room_updated # OnClose True #
                 (case onClose env True of
                    None \<Rightarrow> []
                  | Some e \<Rightarrow> [Toast toast_unexpected, ConsoleError ''Failed to save room:'' e])
            else [Toast toast_update_failed])
           @ [SetIsSubmitting False]"
  using assms by (simp add: handler_defs split: option.split)

lemma onSubmit_create_returned:
  assumes "room p = None" "locations p \<noteq> []"
    and "addRoom env (name data) (locationId data) = Inr res"
  shows "fst (onSubmit p env data) =
           SetIsSubmitting True # CallAddRoom (name data) (locationId data) #
           (if res \<noteq> None
            then Toast toast_room_added # OnClose True #
                 (case onClose env True of
                    None \<Rightarrow> []
                  | Some e \<Rightarrow> [Toast toast_unexpected, ConsoleError ''Failed to save room:'' e])
            else [Toast toast_add_failed])
           @ [SetIsSubmitting False]"
  using assms by (simp add: handler_defs split: option.split)

lemma onSubmit_edit_threw:
  assumes "room p = Some r" "locations p \<noteq> []"
    and "updateRoom env (merged r data) = Inl e"
  shows "onSubmit p env data =
           ([SetIsSubmitting True, CallUpdateRoom (merged r data), Toast toast_unexpected,
             ConsoleError ''Failed to save room:'' e, SetIsSubmitting False], None)"
  using assms by (simp add: handler_defs)

lemma onSubmit_create_threw:
  assumes "room p = None" "locations p \<noteq> []"
    and "addRoom env (name data) (locationId data) = Inl e"
  shows "onSubmit p env data =
           ([SetIsSubmitting True, CallAddRoom (name data) (locationId data),
             Toast toast_unexpected, ConsoleError ''Failed to save room:'' e,
             SetIsSubmitting False], None)"
  using assms by (simp add: handler_defs)

lemma onSubmit_no_locations:
  "locations p = [] \<Longrightarrow> onSubmit p env data = ([Toast toast_no_locations], None)"
  by (simp add: onSubmit_def emit_def)

lemma onSubmit_resolves: "snd (onSubmit p env data) = None"
  by (simp add: handler_defs split: option.split sum.split prod.split)

lemma merged_fields:
  "merged r data =
     \<lparr>Room_id = Room_id r, Room_name = name data, Room_locationId = locationId data,
      \<dots> = Room.more r\<rparr>"
  by (simp add: merged_def)

text \<open>Success of the persistence call, path by path, and the paths themselves.\<close>

lemma persist_ok_edit:
  "room p = Some r \<Longrightarrow> locations p \<noteq> [] \<Longrightarrow> updateRoom env (merged r data) = Inr ok
   \<Longrightarrow> persist_ok p env data = ok"
  by (simp add: persist_ok_def)

lemma persist_ok_create:
  "room p = None \<Longrightarrow> locations p \<noteq> [] \<Longrightarrow> addRoom env (name data) (locationId data) = Inr res
   \<Longrightarrow> persist_ok p env data = (res \<noteq> None)"
  by (cases res) (simp_all add: persist_ok_def)

lemma persist_ok_threw:
  "(case room p of Some r \<Rightarrow> updateRoom env (merged r data) = Inl e
    | None \<Rightarrow> addRoom env (name data) (locationId data) = Inl e)
   \<Longrightarrow> \<not> persist_ok p env data"
  by (cases "room p") (simp_all add: persist_ok_def)

lemmas toast_defs =
  toast_no_locations_def toast_room_updated_def toast_update_failed_def
  toast_room_added_def toast_add_failed_def toast_unexpected_def

text \<open>The paths of the handler.\<close>

lemma onSubmit_paths [case_names NoLocations EditReturned EditThrew CreateReturned CreateThrew]:
  obtains "locations p = []"
  | r ok where "room p = Some r" "locations p \<noteq> []" "updateRoom env (merged r data) = Inr ok"
  | r e where "room p = Some r" "locations p \<noteq> []" "updateRoom env (merged r data) = Inl e"
  | res where "room p = None" "locations p \<noteq> []"
      "addRoom env (name data) (locationId data) = Inr res"
  | e where "room p = None" "locations p \<noteq> []"
      "addRoom env (name data) (locationId data) = Inl e"
proof (cases "locations p = []")
  case True
  then show ?thesis using that(1) by simp
next
  case False
  show ?thesis
  proof (cases "room p")
    case None
    with False that(4,5) show ?thesis
      by (cases "addRoom env (name data) (locationId data)") auto
  next
    case (Some r)
    with False that(2,3) show ?thesis
      by (cases "updateRoom env (merged r data)") auto
  qed
qed

text \<open>
  The seeded location id is a supplied one when \<open>seed_ok\<close> holds, and every event
  keeps the form's location id among the supplied ones.
\<close>

lemma seed_or_first_known:
  assumes "case js_or a b of None \<Rightarrow> True | Some l \<Rightarrow> l = [] \<or> l \<in> set ids"
    and "ids \<noteq> []"
  shows "js_or_str (js_or a b) (ids ! 0) \<in> set ids"
  using assms
  by (cases a rule: str_opt_cases; cases b rule: str_opt_cases)
     (simp_all add: js_or_def js_or_str_def truthy_def)

lemma defaultValues_location_known:
  assumes "seed_ok p" "locations p \<noteq> []"
  shows "locationId (defaultValues p) \<in> set (location_ids p)"
proof -
  have "location_ids p \<noteq> []" and "Location_id (locations p ! 0) = location_ids p ! 0"
    using assms(2) by (simp_all add: location_ids_def)
  with seed_or_first_known [where a = "map_option Room_locationId (room p)"
      and b = "defaultLocationId p" and ids = "location_ids p"] assms
  show ?thesis
    by (simp add: seed_ok_def defaultValues_def)
qed

lemma ui_step_preserves:
  assumes "form_location_known st" "event_ok ev"
  shows "form_location_known (ui_step st ev)"
proof (cases st)
  case (Pair p s)
  show ?thesis
  proof (cases ev)
    case (Rerender p' fresh)
    show ?thesis
    proof (cases "deps_changed p p' fresh")
      case True
      with assms(2) Rerender Pair show ?thesis
        by (simp add: form_location_known_def rerender_def useEffect_body_def
            defaultValues_location_known)
    next
      case False
      with assms(1) Rerender Pair show ?thesis
        by (simp add: form_location_known_def rerender_def deps_changed_def location_ids_def)
    qed
  next
    case (TypeName n)
    with assms(1) Pair show ?thesis
      by (simp add: form_location_known_def name_onChange_def)
  next
    case (PickLocation i)
    with assms(1) Pair show ?thesis
      by (simp add: form_location_known_def location_onValueChange_def location_ids_def)
  qed
qed

lemma ui_steps_preserve:
  "form_location_known st \<Longrightarrow> list_all event_ok evs
   \<Longrightarrow> form_location_known (foldl ui_step st evs)"
  by (induction evs arbitrary: st) (simp_all add: ui_step_preserves)

lemma mount_location_known: "seed_ok p \<Longrightarrow> form_location_known (p, mount p)"
  by (simp add: form_location_known_def mount_def defaultValues_location_known)

text \<open>
  The two halves of the handler, put together, are the handler: the trace of \<open>onSubmit\<close>
  is what \<open>submit_start\<close> performs followed by what \<open>submit_resume\<close> performs on the
  outcome of the awaited call.
\<close>

lemma onSubmit_split_edit:
  assumes "room p = Some r" "locations p \<noteq> []"
  shows "submit_start p data =
           ([SetIsSubmitting True, CallUpdateRoom (merged r data)], Some AwaitUpdate)"
    and "fst (onSubmit p env data) =
           fst (submit_start p data)
           @ fst (submit_resume env AwaitUpdate (updateRoom env (merged r data)))"
  using assms
  by (cases "updateRoom env (merged r data)";
      simp add: submit_start_def submit_resume_def after_await_def handler_defs
        split: option.split)+

lemma onSubmit_split_create:
  assumes "room p = None" "locations p \<noteq> []"
  shows "submit_start p data =
           ([SetIsSubmitting True, CallAddRoom (name data) (locationId data)], Some AwaitAdd)"
    and "fst (onSubmit p env data) =
           fst (submit_start p data)
           @ fst (submit_resume env AwaitAdd
                    (map_sum (\<lambda>e. e) (\<lambda>newRoom. newRoom \<noteq> None)
                       (addRoom env (name data) (locationId data))))"
  using assms
  by (cases "addRoom env (name data) (locationId data)";
      simp add: submit_start_def submit_resume_def after_await_def handler_defs
        split: option.split)+

lemma onSubmit_split_rejected:
  assumes "locations p = []"
  shows "submit_start p data = (fst (onSubmit p env data), None)"
  using assms by (simp add: submit_start_def onSubmit_def emit_def)




lemma submit_resume_flag: "flag_after b (fst (submit_resume env w outcome)) = False"
  by (cases w; cases outcome)
     (auto simp: submit_resume_def after_await_def handler_defs split: option.split)









text \<open>A submit attempt without locations, and the last step of a session.\<close>

lemma attempt_no_locations:
  assumes "locations p = []"
  shows "attempt_effects (handleSubmit p env v) =
           (if 3 \<le> length (name v) \<and> locationId v \<noteq> []
            then [Toast toast_no_locations] else [])"
  using assms
  by (auto simp: handleSubmit_def roomFormSchema_def z_string_min_def Let_def
        onSubmit_no_locations)





subsection \<open>Validation\<close>

text \<open>
  Claim C6. The schema accepts form values exactly when the name has at least 3
  characters and the location id is not empty, and then returns them. Otherwise it
  reports, in this order, ``Room name must be at least 3 characters long.'' for the field
  \<open>name\<close> when the name is shorter than 3, and ``Location is required.'' for the field
  \<open>locationId\<close> when the location id is empty, and nothing else. Submission goes through
  the schema first: with accepted values the submit handler is invoked on them, with
  rejected values it is not invoked, and the issues are all that results.
\<close>

theorem roomFormSchema_accepts_iff:
  "roomFormSchema v =
     (if 3 \<le> length (name v) \<and> locationId v \<noteq> []
      then Inr v
      else Inl ((if length (name v) < 3
                 then [(''name'', ''Room name must be at least 3 characters long.'')]
                 else [])
              @ (if locationId v = []
                 then [(''locationId'', ''Location is required.'')]
                 else [])))
   \<and> handleSubmit p env v =
     (if 3 \<le> length (name v) \<and> locationId v \<noteq> []
      then Submitted v (onSubmit p env v)
      else Blocked ((if length (name v) < 3
                 then [(''name'', ''Room name must be at least 3 characters long.'')]
                 else [])
              @ (if locationId v = []
                 then [(''locationId'', ''Location is required.'')]
                 else [])))"
  by (auto simp: roomFormSchema_def handleSubmit_def z_string_min_def name_too_short_def
        location_required_def Let_def parsed_values)

theorem roomFormSchema_accepts_iff_witness:
  "roomFormSchema \<lparr>name = ''ab'', locationId = ''''\<rparr> =
     Inl [(''name'', ''Room name must be at least 3 characters long.''),
          (''locationId'', ''Location is required.'')]
   \<and> handleSubmit create_props env_success \<lparr>name = ''ab'', locationId = ''''\<rparr> =
     Blocked [(''name'', ''Room name must be at least 3 characters long.''),
          (''locationId'', ''Location is required.'')]
   \<and> roomFormSchema suite_values = Inr suite_values
   \<and> handleSubmit create_props env_success suite_values =
     Submitted suite_values (onSubmit create_props env_success suite_values)"
  using roomFormSchema_accepts_iff [of "\<lparr>name = ''ab'', locationId = ''''\<rparr>" create_props env_success]
    roomFormSchema_accepts_iff [of suite_values create_props env_success]
  by (simp add: suite_values_def)

subsection \<open>Form state\<close>

text \<open>
  Claim C7. Whenever the dialog goes from not open to open, whatever the room, the
  location list and the default location id, and whatever the form held before, the
  effect sets the name to the room's name if a room is supplied and to the empty string
  otherwise, sets the location id to the room's location id if present, else to the
  supplied default, else to the first location's id, else to the empty string, and sets
  the submitting flag to false. The state does not depend on the previous state \<open>s\<close>, so
  nothing of an earlier session survives. The first render starts from the same values.
  Present and supplied are read as JavaScript's \<open>||\<close> reads them: a non-empty string.
\<close>

theorem reopen_reinitializes:
  "mount new =
     \<lparr>form = \<lparr>name = spec_name (map_option Room_name (room new)),
              locationId = spec_locationId (map_option Room_locationId (room new))
                             (defaultLocationId new) (map Location_id (locations new))\<rparr>,
      isSubmitting = False\<rparr>
   \<and> (\<not> isOpen old \<and> isOpen new \<longrightarrow>
      rerender old new fresh s =
        \<lparr>form = \<lparr>name = spec_name (map_option Room_name (room new)),
                 locationId = spec_locationId (map_option Room_locationId (room new))
                                (defaultLocationId new) (map Location_id (locations new))\<rparr>,
         isSubmitting = False\<rparr>)"
  by (auto simp: mount_def rerender_def deps_changed_def useEffect_body_def defaultValues_spec)

theorem reopen_reinitializes_witness:
  "rerender closed_props edit_props False
     \<lparr>form = \<lparr>name = ''Draft'', locationId = ''L7''\<rparr>, isSubmitting = True\<rparr> =
     \<lparr>form = \<lparr>name = ''Old'', locationId = ''L1''\<rparr>, isSubmitting = False\<rparr>
   \<and> mount create_props =
     \<lparr>form = \<lparr>name = [], locationId = ''L1''\<rparr>, isSubmitting = False\<rparr>"
  using reopen_reinitializes [of edit_props closed_props False
      "\<lparr>form = \<lparr>name = ''Draft'', locationId = ''L7''\<rparr>, isSubmitting = True\<rparr>"]
    reopen_reinitializes [of create_props closed_props False
      "\<lparr>form = \<lparr>name = ''Draft'', locationId = ''L7''\<rparr>, isSubmitting = True\<rparr>"]
  by (simp add: closed_props_def edit_props_def create_props_def old_room_def lobby_def)

subsection \<open>The submit handler\<close>

text \<open>
  Claim C1. In edit mode with a non-empty location list, the handler calls
  \<open>updateRoom\<close> exactly once, with the record made of the room's id, the form's name and
  the form's location id (and the room's other fields), and never calls \<open>addRoom\<close>. If
  \<open>updateRoom\<close> returns true, the success notification is emitted and \<open>onClose(true)\<close>
  is called, once. If it returns false, the failure notification is the only
  notification and \<open>onClose\<close> is not called. This holds for all form values, valid or
  not.
\<close>

theorem edit_submission:
  "room p = Some r \<and> locations p \<noteq> [] \<longrightarrow>
     update_calls (fst (onSubmit p env data)) =
       [\<lparr>Room_id = Room_id r, Room_name = name data, Room_locationId = locationId data,
         \<dots> = Room.more r\<rparr>]
     \<and> add_calls (fst (onSubmit p env data)) = []
     \<and> (updateRoom env (merged r data) = Inr True \<longrightarrow>
          toast_room_updated \<in> set (toasts (fst (onSubmit p env data)))
          \<and> closes (fst (onSubmit p env data)) = [True])
     \<and> (updateRoom env (merged r data) = Inr False \<longrightarrow>
          toasts (fst (onSubmit p env data)) = [toast_update_failed]
          \<and> closes (fst (onSubmit p env data)) = [])"
proof (intro impI, elim conjE)
  assume r: "room p = Some r" and l: "locations p \<noteq> []"
  show "update_calls (fst (onSubmit p env data)) =
       [\<lparr>Room_id = Room_id r, Room_name = name data, Room_locationId = locationId data,
         \<dots> = Room.more r\<rparr>]
     \<and> add_calls (fst (onSubmit p env data)) = []
     \<and> (updateRoom env (merged r data) = Inr True \<longrightarrow>
          toast_room_updated \<in> set (toasts (fst (onSubmit p env data)))
          \<and> closes (fst (onSubmit p env data)) = [True])
     \<and> (updateRoom env (merged r data) = Inr False \<longrightarrow>
          toasts (fst (onSubmit p env data)) = [toast_update_failed]
          \<and> closes (fst (onSubmit p env data)) = [])"
  proof (cases "updateRoom env (merged r data)")
    case (Inl e)
    show ?thesis
      by (simp add: onSubmit_edit_threw [OF r l Inl] Inl merged_fields [symmetric])
  next
    case (Inr ok)
    show ?thesis
      by (simp add: onSubmit_edit_returned [OF r l Inr] Inr merged_fields [symmetric]
            split: option.split)
  qed
qed

theorem edit_submission_witness:
  "update_calls (fst (onSubmit edit_props env_failure new_values)) =
     [\<lparr>Room_id = ''R1'', Room_name = ''New'', Room_locationId = ''L1''\<rparr>]
   \<and> add_calls (fst (onSubmit edit_props env_failure new_values)) = []
   \<and> toasts (fst (onSubmit edit_props env_failure new_values)) = [toast_update_failed]
   \<and> closes (fst (onSubmit edit_props env_failure new_values)) = []
   \<and> toast_room_updated \<in> set (toasts (fst (onSubmit edit_props env_success new_values)))
   \<and> closes (fst (onSubmit edit_props env_success new_values)) = [True]"
  using edit_submission [of edit_props old_room env_failure new_values]
    edit_submission [of edit_props old_room env_success new_values]
  by (simp add: edit_props_def old_room_def env_failure_def env_success_def new_values_def)

text \<open>
  Claim C2. In create mode with a non-empty location list, the handler calls \<open>addRoom\<close>
  exactly once, with the form's name and location id, and never calls \<open>updateRoom\<close>. If
  the result is a room, the success notification is emitted and \<open>onClose(true)\<close> is
  called, once. If the result is \<open>null\<close>, the failure notification is the only
  notification and \<open>onClose\<close> is not called.
\<close>

theorem create_submission:
  "room p = None \<and> locations p \<noteq> [] \<longrightarrow>
     add_calls (fst (onSubmit p env data)) = [(name data, locationId data)]
     \<and> update_calls (fst (onSubmit p env data)) = []
     \<and> (addRoom env (name data) (locationId data) = Inr (Some newRoom) \<longrightarrow>
          toast_room_added \<in> set (toasts (fst (onSubmit p env data)))
          \<and> closes (fst (onSubmit p env data)) = [True])
     \<and> (addRoom env (name data) (locationId data) = Inr None \<longrightarrow>
          toasts (fst (onSubmit p env data)) = [toast_add_failed]
          \<and> closes (fst (onSubmit p env data)) = [])"
proof (intro impI, elim conjE)
  assume r: "room p = None" and l: "locations p \<noteq> []"
  show "add_calls (fst (onSubmit p env data)) = [(name data, locationId data)]
     \<and> update_calls (fst (onSubmit p env data)) = []
     \<and> (addRoom env (name data) (locationId data) = Inr (Some newRoom) \<longrightarrow>
          toast_room_added \<in> set (toasts (fst (onSubmit p env data)))
          \<and> closes (fst (onSubmit p env data)) = [True])
     \<and> (addRoom env (name data) (locationId data) = Inr None \<longrightarrow>
          toasts (fst (onSubmit p env data)) = [toast_add_failed]
          \<and> closes (fst (onSubmit p env data)) = [])"
  proof (cases "addRoom env (name data) (locationId data)")
    case (Inl e)
    show ?thesis
      by (simp add: onSubmit_create_threw [OF r l Inl] Inl)
  next
    case (Inr res)
    show ?thesis
      by (simp add: onSubmit_create_returned [OF r l Inr] Inr split: option.split)
  qed
qed

theorem create_submission_witness:
  "defaultValues create_props = \<lparr>name = [], locationId = ''L1''\<rparr>
   \<and> add_calls (fst (onSubmit create_props env_success suite_values)) =
       [(''Sunrise Suite'', ''L1'')]
   \<and> update_calls (fst (onSubmit create_props env_success suite_values)) = []
   \<and> toast_room_added \<in> set (toasts (fst (onSubmit create_props env_success suite_values)))
   \<and> closes (fst (onSubmit create_props env_success suite_values)) = [True]
   \<and> toasts (fst (onSubmit create_props env_failure suite_values)) = [toast_add_failed]
   \<and> closes (fst (onSubmit create_props env_failure suite_values)) = []"
  using create_submission [of create_props env_success suite_values suite_room]
    create_submission [of create_props env_failure suite_values suite_room]
  by (simp add: create_props_def env_failure_def env_success_def suite_values_def
        defaultValues_def js_or_def js_or_str_def truthy_def)

text \<open>
  Claim C4, as stated: every submit attempt made while the location list is empty emits
  the ``no locations available'' notification. A submit attempt goes through
  \<open>form.handleSubmit(onSubmit)\<close> (line 96). Opened without a room, without a default
  location and without locations, the form holds an empty location id; once a name is
  typed, the attempt is blocked by validation with ``Location is required.'' and the
  handler, hence the notification, is never reached.
\<close>

theorem blocked_attempt_counterexample:
  "locations bare_props = []
   \<and> form (snd (ui_run bare_props [TypeName ''Sunrise Suite''])) =
       \<lparr>name = ''Sunrise Suite'', locationId = []\<rparr>
   \<and> handleSubmit bare_props env_success
        (form (snd (ui_run bare_props [TypeName ''Sunrise Suite'']))) =
       Blocked [(''locationId'', ''Location is required.'')]
   \<and> toasts (attempt_effects (handleSubmit bare_props env_success
        (form (snd (ui_run bare_props [TypeName ''Sunrise Suite'']))))) = []"
proof -
  have f: "form (snd (ui_run bare_props [TypeName ''Sunrise Suite''])) =
       \<lparr>name = ''Sunrise Suite'', locationId = []\<rparr>"
    by (simp add: ui_run_def mount_def defaultValues_def js_or_def js_or_str_def truthy_def
        name_onChange_def bare_props_def)
  show ?thesis
    unfolding f
    by (simp add: bare_props_def handleSubmit_def roomFormSchema_def z_string_min_def
        location_required_def)
qed

text \<open>
  Claim C4, amended: every submit attempt made while the location list is empty calls
  neither \<open>updateRoom\<close> nor \<open>addRoom\<close>, never writes the submitting flag, which keeps
  its value, and does not call \<open>onClose\<close>. When the form values pass validation the
  handler is invoked and emits the one error notification ``No locations available.
  Please add a location first.''; when they do not, the attempt is blocked by validation
  and no notification is emitted. Every invocation of the handler itself with an empty
  list emits that one notification and does nothing else.
\<close>

theorem empty_locations_rejected:
  "locations p = [] \<longrightarrow>
     update_calls (attempt_effects (handleSubmit p env v)) = []
     \<and> add_calls (attempt_effects (handleSubmit p env v)) = []
     \<and> flag_writes (attempt_effects (handleSubmit p env v)) = []
     \<and> closes (attempt_effects (handleSubmit p env v)) = []
     \<and> flag_after b (attempt_effects (handleSubmit p env v)) = b
     \<and> toasts (attempt_effects (handleSubmit p env v)) =
         (if 3 \<le> length (name v) \<and> locationId v \<noteq> []
          then [\<lparr>title = ''Error'',
                 description = ''No locations available. Please add a location first.'',
                 variant = Some ''destructive''\<rparr>]
          else [])
     \<and> update_calls (fst (onSubmit p env data)) = []
     \<and> add_calls (fst (onSubmit p env data)) = []
     \<and> toasts (fst (onSubmit p env data)) =
         [\<lparr>title = ''Error'',
           description = ''No locations available. Please add a location first.'',
           variant = Some ''destructive''\<rparr>]
     \<and> flag_writes (fst (onSubmit p env data)) = []
     \<and> closes (fst (onSubmit p env data)) = []
     \<and> flag_after b (fst (onSubmit p env data)) = b"
  by (simp add: attempt_no_locations onSubmit_no_locations toast_no_locations_def)

theorem empty_locations_rejected_witness:
  "locations no_location_props = []
   \<and> handleSubmit no_location_props env_success new_values =
       Submitted new_values (onSubmit no_location_props env_success new_values)
   \<and> update_calls (attempt_effects (handleSubmit no_location_props env_success new_values)) = []
   \<and> add_calls (attempt_effects (handleSubmit no_location_props env_success new_values)) = []
   \<and> toasts (attempt_effects (handleSubmit no_location_props env_success new_values)) =
         [\<lparr>title = ''Error'',
           description = ''No locations available. Please add a location first.'',
           variant = Some ''destructive''\<rparr>]
   \<and> flag_writes (attempt_effects (handleSubmit no_location_props env_success new_values)) = []
   \<and> closes (attempt_effects (handleSubmit no_location_props env_success new_values)) = []
   \<and> flag_after False (attempt_effects (handleSubmit no_location_props env_success new_values))
       = False"
  using empty_locations_rejected [of no_location_props env_success new_values False new_values]
  by (simp add: no_location_props_def new_values_def handleSubmit_def roomFormSchema_def
      z_string_min_def)

text \<open>
  Claim C5. When the persistence call of a submission (\<open>updateRoom\<close> in edit mode,
  \<open>addRoom\<close> in create mode) throws \<open>e\<close>, the handler completes without throwing, logs
  \<open>e\<close> with ``Failed to save room:'', emits the generic failure notification and no
  other, does not call \<open>onClose\<close>, and leaves the submitting flag false.
\<close>

theorem persistence_throw_caught:
  "locations p \<noteq> [] \<and>
   (case room p of
      Some r \<Rightarrow> updateRoom env (merged r data) = Inl e
    | None \<Rightarrow> addRoom env (name data) (locationId data) = Inl e) \<longrightarrow>
     snd (onSubmit p env data) = None
     \<and> logged (fst (onSubmit p env data)) = [(''Failed to save room:'', e)]
     \<and> toasts (fst (onSubmit p env data)) = [toast_unexpected]
     \<and> closes (fst (onSubmit p env data)) = []
     \<and> flag_after b (fst (onSubmit p env data)) = False"
proof (cases "room p")
  case None
  then show ?thesis by (auto simp: onSubmit_create_threw)
next
  case (Some r)
  then show ?thesis by (auto simp: onSubmit_edit_threw)
qed

theorem persistence_throw_caught_witness:
  "snd (onSubmit edit_props env_throws new_values) = None
   \<and> logged (fst (onSubmit edit_props env_throws new_values)) =
       [(''Failed to save room:'', Exn ''offline'')]
   \<and> toasts (fst (onSubmit edit_props env_throws new_values)) = [toast_unexpected]
   \<and> closes (fst (onSubmit edit_props env_throws new_values)) = []
   \<and> flag_after True (fst (onSubmit edit_props env_throws new_values)) = False
   \<and> logged (fst (onSubmit create_props env_throws suite_values)) =
       [(''Failed to save room:'', Exn ''offline'')]"
  using persistence_throw_caught [of edit_props env_throws new_values "Exn ''offline''" True]
    persistence_throw_caught [of create_props env_throws suite_values "Exn ''offline''" True]
  by (simp add: edit_props_def create_props_def env_throws_def)

text \<open>
  Claim C9. In edit mode, the record passed to \<open>updateRoom\<close> has the id of the supplied
  room and, unchanged, every field of the room beyond id, name and location id (the
  extension \<open>Room.more\<close>): only name and location id are overwritten.
\<close>

theorem update_preserves_other_fields:
  "room p = Some r \<and> locations p \<noteq> [] \<longrightarrow>
     map Room_id (update_calls (fst (onSubmit p env data))) = [Room_id r]
     \<and> map Room.more (update_calls (fst (onSubmit p env data))) = [Room.more r]"
proof (intro impI, elim conjE)
  assume r: "room p = Some r" and l: "locations p \<noteq> []"
  show "map Room_id (update_calls (fst (onSubmit p env data))) = [Room_id r]
     \<and> map Room.more (update_calls (fst (onSubmit p env data))) = [Room.more r]"
  proof (cases "updateRoom env (merged r data)")
    case (Inl e)
    show ?thesis
      by (simp add: onSubmit_edit_threw [OF r l Inl] merged_def)
  next
    case (Inr ok)
    show ?thesis
      by (simp add: onSubmit_edit_returned [OF r l Inr] merged_def split: option.split)
  qed
qed

theorem update_preserves_other_fields_witness:
  "map Room_id (update_calls (fst (onSubmit hall_props hall_env new_values))) = [''R3'']
   \<and> map Room.more (update_calls (fst (onSubmit hall_props hall_env new_values))) =
       [\<lparr>capacity = 40\<rparr>]"
  using update_preserves_other_fields [of hall_props hall hall_env new_values]
  by (simp add: hall_props_def hall_def)

subsection \<open>Notifications\<close>

text \<open>
  Claim C10, as stated: every invocation of the submit handler emits exactly one
  notification. It fails where the save succeeds and the parent's \<open>onClose\<close> throws:
  \<open>onClose(true)\<close> is called inside the \<open>try\<close> block, after the success notification,
  so the \<open>catch\<close> block then emits the generic failure notification as a second one.
\<close>

theorem second_toast_counterexample:
  "toasts (fst (onSubmit edit_props env_onClose_throws new_values)) =
     [toast_room_updated, toast_unexpected]"
  by (simp add: handler_defs edit_props_def env_onClose_throws_def)

text \<open>
  Claim C10, amended: provided that \<open>onClose(true)\<close> returns normally, every invocation
  of the submit handler emits exactly one notification; it is a success notification
  (no \<open>variant\<close>) when the persistence call reports success, and an error notification
  (\<open>variant\<close> ``destructive'') in every other case: no location, a false or \<open>null\<close>
  result, a thrown error.
\<close>

theorem one_toast_per_submit:
  assumes "onClose env True = None"
  shows "\<exists>t. toasts (fst (onSubmit p env data)) = [t]
             \<and> (persist_ok p env data \<longrightarrow> variant t = None)
             \<and> (\<not> persist_ok p env data \<longrightarrow> variant t = Some ''destructive'')"
proof (cases rule: onSubmit_paths [where p = p and env = env and data = data])
  case NoLocations
  then show ?thesis
    by (simp add: onSubmit_no_locations persist_ok_def toast_defs)
next
  case (EditReturned r ok)
  then show ?thesis
    using assms by (simp add: onSubmit_edit_returned persist_ok_edit toast_defs)
next
  case (EditThrew r e)
  then show ?thesis
    by (simp add: onSubmit_edit_threw persist_ok_def toast_defs)
next
  case (CreateReturned res)
  then show ?thesis
    using assms by (simp add: onSubmit_create_returned persist_ok_create toast_defs)
next
  case (CreateThrew e)
  then show ?thesis
    by (simp add: onSubmit_create_threw persist_ok_def toast_defs)
qed

theorem one_toast_per_submit_witness:
  "onClose env_success True = None
   \<and> toasts (fst (onSubmit edit_props env_success new_values)) = [toast_room_updated]
   \<and> variant toast_room_updated = None"
proof -
  have h: "onClose env_success True = None"
    by (simp add: env_success_def)
  have t: "fst (onSubmit edit_props env_success new_values) =
           [SetIsSubmitting True, CallUpdateRoom (merged old_room new_values),
            Toast toast_room_updated, OnClose True, SetIsSubmitting False]"
    by (simp add: handler_defs edit_props_def env_success_def)
  from one_toast_per_submit [OF h, of edit_props new_values] h t show ?thesis
    by (simp add: toast_room_updated_def)
qed


subsection \<open>Closing the dialog\<close>




subsection \<open>The location held by the form\<close>

text \<open>
  Claim C8, as stated: the form's location id is always an id of the supplied list
  when the list is not empty. It fails when the dialog is opened for a room whose
  location id is not in the list: the form is seeded with that id unchecked.
\<close>

theorem stray_location_counterexample:
  "isOpen stray_props \<and> locations stray_props \<noteq> []
   \<and> locationId (form (snd (ui_run stray_props []))) \<notin> set (location_ids stray_props)"
  by (simp add: ui_run_def mount_def defaultValues_def js_or_def js_or_str_def truthy_def
      stray_props_def stray_room_def lobby_def location_ids_def)

text \<open>
  Claim C8, amended: suppose that for the first props and for the props of every later
  render the seeding location id (the room's if not empty, else the default if not empty),
  when there is one, is an id of the supplied list. Then at every point, after any
  sequence of renders, name edits and location choices, an open dialog with a non-empty
  list holds a location id of that list, and with an empty list a submission reaches
  neither \<open>updateRoom\<close> nor \<open>addRoom\<close>.
\<close>

theorem form_location_invariant:
  assumes "seed_ok p0" and "list_all event_ok evs" and "ui_run p0 evs = (p, s)"
    and "isOpen p"
  shows "(locations p \<noteq> [] \<longrightarrow> locationId (form s) \<in> set (location_ids p))
       \<and> (locations p = [] \<longrightarrow>
            update_calls (fst (onSubmit p env (form s))) = []
            \<and> add_calls (fst (onSubmit p env (form s))) = [])"
proof -
  have "form_location_known (ui_run p0 evs)"
    unfolding ui_run_def
    using assms(1,2) by (intro ui_steps_preserve mount_location_known)
  with assms(3,4) show ?thesis
    by (simp add: form_location_known_def onSubmit_no_locations)
qed


theorem form_location_invariant_witness:
  "seed_ok closed_props
   \<and> list_all event_ok [Rerender create_props False, TypeName ''Sunrise Suite'', PickLocation 0]
   \<and> ui_run closed_props
        [Rerender create_props False, TypeName ''Sunrise Suite'', PickLocation 0] =
       (create_props, \<lparr>form = suite_values, isSubmitting = False\<rparr>)
   \<and> isOpen create_props
   \<and> locationId suite_values \<in> set (location_ids create_props)"
proof -
  have a: "seed_ok closed_props"
    by (simp add: seed_ok_def closed_props_def js_or_def truthy_def)
  have b: "list_all event_ok
             [Rerender create_props False, TypeName ''Sunrise Suite'', PickLocation 0]"
    by (simp add: seed_ok_def create_props_def js_or_def truthy_def location_ids_def lobby_def)
  have c: "ui_run closed_props
        [Rerender create_props False, TypeName ''Sunrise Suite'', PickLocation 0] =
       (create_props, \<lparr>form = suite_values, isSubmitting = False\<rparr>)"
    by (simp add: ui_run_def mount_def rerender_def deps_changed_def useEffect_body_def
        defaultValues_def js_or_def js_or_str_def truthy_def name_onChange_def
        location_onValueChange_def closed_props_def create_props_def lobby_def
        suite_values_def)
  have d: "isOpen create_props"
    by (simp add: create_props_def)
  from form_location_invariant [OF a b c d, of env_success] a b c d show ?thesis
    by (simp add: create_props_def)
qed


end
